theory Spec2Isabelle
  imports Main
begin

section \<open>Values held by the script's variables\<close>

text \<open>
  The scripts are TypeScript (\<^verbatim>\<open>main.ts\<close>, \<^verbatim>\<open>part_001\<close>) and the JavaScript emitted
  from it (\<^verbatim>\<open>part_000\<close>). At execution every variable holds a JavaScript value. The
  values the scripts build are: the undefined marker (a declared variable before its first
  assignment, an out-of-range read, a missing property), numbers (every numeric literal of
  the source is an integer, so \<open>int\<close>), strings, object literals (property lists in
  insertion order, holding such values) and \<^verbatim>\<open>Error\<close> instances with their message
  (tested by \<^verbatim>\<open>instanceof Error\<close> at part_001:201). No variable of the scripts holds a
  function.
\<close>

datatype jsval =
    JUndefined
  | JNum int
  | JStr string
  | JObj "(string \<times> jsval) list"
  | JErr string

section \<open>Arrays (main.ts:5-10 and 26-35, part_000:4-6 and 24-26)\<close>

text \<open>
  An array is the list of its elements. \<^verbatim>\<open>a.length\<close>, \<^verbatim>\<open>a[i]\<close>, \<^verbatim>\<open>a[i] = v\<close> and
  \<^verbatim>\<open>a.push(v)\<close> are JavaScript's: a read at or beyond the length yields undefined, a write
  beyond the length extends the array (the skipped positions read as undefined), and push
  appends one element.
\<close>

definition array_length :: "jsval list \<Rightarrow> nat" where
  "array_length xs = length xs"

definition array_get :: "jsval list \<Rightarrow> nat \<Rightarrow> jsval" where
  "array_get xs i = (if i < length xs then xs ! i else JUndefined)"

definition array_set :: "jsval list \<Rightarrow> nat \<Rightarrow> jsval \<Rightarrow> jsval list" where
  "array_set xs i v =
     (if i < length xs then xs[i := v]
      else xs @ replicate (i - length xs) JUndefined @ [v])"

definition array_push :: "jsval list \<Rightarrow> jsval \<Rightarrow> jsval list" where
  "array_push xs v = xs @ [v]"

text \<open>
  main.ts:5-7 (the same three statements are part_000:4-6 and part_001:5-7):
  \<^verbatim>\<open>const coord: number[] = [1, 2]; coord[0] = 5; coord.push(3);\<close>
\<close>

definition coord_script :: "jsval list" where
  "coord_script =
     (let coord = [JNum 1, JNum 2];
          coord = array_set coord 0 (JNum 5);
          coord = array_push coord (JNum 3)
      in coord)"

text \<open>main.ts:9-10: \<^verbatim>\<open>console.log(coord.length); console.log(coord[2]);\<close>\<close>

definition coord_log :: "jsval list" where
  "coord_log = [JNum (int (array_length coord_script)), array_get coord_script 2]"





section \<open>Closed-set validation (part_000:74-87, part_001:81-95)\<close>

text \<open>
  The state the validation touches: the variable \<^verbatim>\<open>direction\<close> and the two sinks,
  \<^verbatim>\<open>console.log\<close> (\<open>out\<close>) and \<^verbatim>\<open>console.error\<close> (\<open>err\<close>). A variable that is
  declared and not yet assigned holds undefined.
\<close>

record script_state =
  direction :: jsval
  out :: "jsval list"
  err :: "jsval list"

text \<open>\<^verbatim>\<open>let direction: "north" | "south" | "east" | "west";\<close> with nothing printed yet.\<close>

definition declared :: script_state where
  "declared = \<lparr>direction = JUndefined, out = [], err = []\<rparr>"

text \<open>
  \<^verbatim>\<open>if (input === "north" || input === "south" || input === "east" || input === "west")
    { direction = input; } else { console.error("Invalid direction entered."); }\<close>
  The source fixes \<^verbatim>\<open>input = "north"\<close> where a prompt is meant to stand; the candidate
  is the parameter here.
\<close>

definition validate_direction :: "string \<Rightarrow> script_state \<Rightarrow> script_state" where
  "validate_direction input s =
     (if input = ''north'' \<or> input = ''south'' \<or> input = ''east'' \<or> input = ''west''
      then s\<lparr>direction := JStr input\<rparr>
      else s\<lparr>err := err s @ [JStr ''Invalid direction entered.'']\<rparr>)"

definition direction_script :: "string \<Rightarrow> script_state" where
  "direction_script input = validate_direction input declared"

section \<open>Objects and property keys\<close>

text \<open>
  An object is its property list. A property key is a string; a number used as a key
  (\<^verbatim>\<open>Size[100]\<close>) is first converted to its decimal string.
\<close>

fun obj_set :: "(string \<times> jsval) list \<Rightarrow> string \<Rightarrow> jsval \<Rightarrow> (string \<times> jsval) list" where
  "obj_set [] k v = [(k, v)]"
| "obj_set ((k', v') # ps) k v =
     (if k' = k then (k, v) # ps else (k', v') # obj_set ps k v)"

definition obj_get :: "(string \<times> jsval) list \<Rightarrow> string \<Rightarrow> jsval" where
  "obj_get ps k = (case map_of ps k of None \<Rightarrow> JUndefined | Some v \<Rightarrow> v)"

fun digits_of :: "nat \<Rightarrow> string" where
  "digits_of n =
     (if n < 10 then [char_of (48 + n)]
      else digits_of (n div 10) @ [char_of (48 + n mod 10)])"

declare digits_of.simps [simp del]

definition num_to_string :: "int \<Rightarrow> string" where
  "num_to_string n = (if n < 0 then CHR ''-'' # digits_of (nat (- n)) else digits_of (nat n))"

fun to_key :: "jsval \<Rightarrow> string" where
  "to_key JUndefined = ''undefined''"
| "to_key (JNum n) = num_to_string n"
| "to_key (JStr s) = s"
| "to_key (JObj ps) = ''[object Object]''"
| "to_key (JErr m) = (if m = [] then ''Error'' else ''Error: '' @ m)"

text \<open>\<^verbatim>\<open>obj[k]\<close> with a computed key \<open>k\<close>.\<close>

definition obj_index :: "(string \<times> jsval) list \<Rightarrow> jsval \<Rightarrow> jsval" where
  "obj_index ps k = obj_get ps (to_key k)"

section \<open>Named integer constants\<close>

subsection \<open>The emitted object (part_000:92-99)\<close>

text \<open>
  One line of the emitted initialiser, \<^verbatim>\<open>Size[Size["Small"] = 100] = "Small";\<close>: the inner
  assignment binds the label to the number and has the number as its value, the outer one
  binds that number, as a key, to the label's name.
\<close>

definition enum_assign :: "(string \<times> jsval) list \<Rightarrow> string \<Rightarrow> int \<Rightarrow> (string \<times> jsval) list" where
  "enum_assign obj name n =
     (let obj = obj_set obj name (JNum n);
          inner = JNum n
      in obj_set obj (to_key inner) (JStr name))"

text \<open>
  \<^verbatim>\<open>(function (Size) { ... })(Size || (Size = {}));\<close> with its three lines, starting from
  the empty object.
\<close>

definition Size_emitted :: "(string \<times> jsval) list" where
  "Size_emitted =
     (let Size = [];
          Size = enum_assign Size ''Small'' 100;
          Size = enum_assign Size ''Medium'' 101;
          Size = enum_assign Size ''Large'' 102
      in Size)"

text \<open>
  \<^verbatim>\<open>var size = Size.Medium; console.log(size);\<close>: what the output sink receives. (The
  comment on part_000:99 reads "Outputs 0"; part_001:117 has "Outputs 101" on the same
  statement.)
\<close>

definition size_emitted_log :: "jsval list" where
  "size_emitted_log = (let size = obj_get Size_emitted ''Medium'' in [size])"

subsection \<open>The declarations (part_001:102-126)\<close>

text \<open>
  A numeric enum declaration is its list of labels, each with its initialiser if it has
  one. TypeScript gives a label without initialiser the value 0 when it is the first, and
  the value of the label before it plus 1 otherwise; the declaration is lowered to one
  \<open>enum_assign\<close> line per label, in order (the shape part_000:93-97 shows for \<^verbatim>\<open>Size\<close>).
\<close>

type_synonym enum_decl = "(string \<times> int option) list"

fun enum_values :: "int \<Rightarrow> enum_decl \<Rightarrow> (string \<times> int) list" where
  "enum_values nxt [] = []"
| "enum_values nxt ((name, None) # ms) = (name, nxt) # enum_values (nxt + 1) ms"
| "enum_values nxt ((name, Some n) # ms) = (name, n) # enum_values (n + 1) ms"

definition lower_enum :: "enum_decl \<Rightarrow> (string \<times> jsval) list \<Rightarrow> (string \<times> jsval) list" where
  "lower_enum decl obj = fold (\<lambda>(name, n) obj. enum_assign obj name n) (enum_values 0 decl) obj"

text \<open>\<^verbatim>\<open>enum Numbers { Zero, One, Two, Three, }\<close>\<close>

definition Numbers_decl :: enum_decl where
  "Numbers_decl = [(''Zero'', None), (''One'', None), (''Two'', None), (''Three'', None)]"

definition Numbers :: "(string \<times> jsval) list" where
  "Numbers = lower_enum Numbers_decl []"

text \<open>\<^verbatim>\<open>let number: Numbers = Numbers.One; console.log(number);\<close>\<close>

definition number_log :: "jsval list" where
  "number_log = (let number = obj_get Numbers ''One'' in [number])"

text \<open>\<^verbatim>\<open>enum Size { Small = 100, Medium, Large, }\<close>\<close>

definition Size_decl :: enum_decl where
  "Size_decl = [(''Small'', Some 100), (''Medium'', None), (''Large'', None)]"

definition Size :: "(string \<times> jsval) list" where
  "Size = lower_enum Size_decl []"

text \<open>\<^verbatim>\<open>let size: Size = Size.Medium; console.log(size);\<close>\<close>

definition size_log :: "jsval list" where
  "size_log = (let size = obj_get Size ''Medium'' in [size])"

text \<open>
  part_001:121-126 declares \<^verbatim>\<open>enum Size\<close> a second time, with string members. The two
  declarations merge into one object; a string member is lowered to a plain assignment
  \<^verbatim>\<open>Size["Up"] = "UP";\<close>, with no entry from the value back to the label.
\<close>

definition lower_string_enum :: "(string \<times> string) list \<Rightarrow> (string \<times> jsval) list \<Rightarrow> (string \<times> jsval) list" where
  "lower_string_enum decl obj = fold (\<lambda>(name, s) obj. obj_set obj name (JStr s)) decl obj"

definition Size_merged :: "(string \<times> jsval) list" where
  "Size_merged =
     lower_string_enum
       [(''Up'', ''UP''), (''Down'', ''DOWN''), (''Left'', ''LEFT''), (''Right'', ''RIGHT'')] Size"

section \<open>Member access on values of any shape (part_001:150-162 and 183-203)\<close>

text \<open>
  The member names the scripts use on these values: the methods they call (part_001:156,
  161, 197, 200) and the properties they read or give to an object literal (part_001:154,
  162, 187, 202, 214). None of the property names is a method of any value above, and no
  value above holds a function, so a property read yields a value of the kind above.
\<close>

datatype method_name = M_toUpperCase | M_toFixed | M_someNonExistentMethod

datatype property_name = P_someNonExistentProperty | P_message | P_id | P_name | P_length

fun property_key :: "property_name \<Rightarrow> string" where
  "property_key P_someNonExistentProperty = ''someNonExistentProperty''"
| "property_key P_message = ''message''"
| "property_key P_id = ''id''"
| "property_key P_name = ''name''"
| "property_key P_length = ''length''"

text \<open>
  A member access that goes wrong at execution throws, and an uncaught throw ends the run.
  The scripts have no \<^verbatim>\<open>try\<close>, so a fault is the result of the run.
\<close>

datatype fault =
    TypeError_read_of_undefined
  | TypeError_not_a_function method_name
  | RangeError_digits

text \<open>
  \<^verbatim>\<open>s.toUpperCase()\<close> on the letters a to z (the strings of the scripts are ASCII), and
  \<^verbatim>\<open>n.toFixed(d)\<close> for an integer \<open>n\<close>: its decimal digits, then \<open>d\<close> zeros after the
  point.
\<close>

definition upper_char :: "char \<Rightarrow> char" where
  "upper_char c =
     (let n = (of_char c :: nat) in if 97 \<le> n \<and> n \<le> 122 then char_of (n - 32) else c)"

definition toUpperCase :: "string \<Rightarrow> string" where
  "toUpperCase s = map upper_char s"

definition toFixed :: "int \<Rightarrow> nat \<Rightarrow> string" where
  "toFixed n d = num_to_string n @ (if d = 0 then [] else CHR ''.'' # replicate d (CHR ''0''))"

text \<open>
  The properties (of those names) a value has: the own properties of an object literal,
  the length of a string, the message and the name of an error.
\<close>

fun has_property :: "jsval \<Rightarrow> property_name \<Rightarrow> bool" where
  "has_property JUndefined k = False"
| "has_property (JNum n) k = False"
| "has_property (JStr s) k = (k = P_length)"
| "has_property (JObj ps) k = (property_key k \<in> set (map fst ps))"
| "has_property (JErr m) k = (k = P_message \<or> k = P_name)"

text \<open>
  \<^verbatim>\<open>v.k\<close>: reading a property of undefined throws; on every other value a property that
  is not there reads as undefined.
\<close>

fun get_prop :: "jsval \<Rightarrow> property_name \<Rightarrow> fault + jsval" where
  "get_prop JUndefined k = Inl TypeError_read_of_undefined"
| "get_prop (JNum n) k = Inr JUndefined"
| "get_prop (JStr s) k = Inr (if k = P_length then JNum (int (length s)) else JUndefined)"
| "get_prop (JObj ps) k = Inr (obj_get ps (property_key k))"
| "get_prop (JErr m) k =
     Inr (if k = P_message then JStr m else if k = P_name then JStr ''Error'' else JUndefined)"

text \<open>The methods (of those names) a value has.\<close>

fun has_method :: "jsval \<Rightarrow> method_name \<Rightarrow> bool" where
  "has_method (JNum n) m = (m = M_toFixed)"
| "has_method (JStr s) m = (m = M_toUpperCase)"
| "has_method v m = False"

text \<open>
  \<^verbatim>\<open>v.m(args)\<close>, the arguments being numeric literals (the scripts pass none, or the
  literal 2): the member is read first, which throws on undefined; calling what is not a
  function throws. An object literal may have an own property under the name, but its
  value is never a function. \<^verbatim>\<open>toFixed\<close> takes its digits from the first argument, 0
  when there is none, and throws a RangeError outside 0..100.
\<close>

fun call_method :: "jsval \<Rightarrow> method_name \<Rightarrow> int list \<Rightarrow> fault + jsval" where
  "call_method JUndefined m args = Inl TypeError_read_of_undefined"
| "call_method (JNum n) m args =
     (if m = M_toFixed then
        (let d = (case args of [] \<Rightarrow> 0 | d # ds \<Rightarrow> d)
         in if 0 \<le> d \<and> d \<le> 100 then Inr (JStr (toFixed n (nat d))) else Inl RangeError_digits)
      else Inl (TypeError_not_a_function m))"
| "call_method (JStr s) m args =
     (if m = M_toUpperCase then Inr (JStr (toUpperCase s)) else Inl (TypeError_not_a_function m))"
| "call_method (JObj ps) m args = Inl (TypeError_not_a_function m)"
| "call_method (JErr e) m args = Inl (TypeError_not_a_function m)"

fun typeof :: "jsval \<Rightarrow> string" where
  "typeof JUndefined = ''undefined''"
| "typeof (JNum n) = ''number''"
| "typeof (JStr s) = ''string''"
| "typeof (JObj ps) = ''object''"
| "typeof (JErr m) = ''object''"

fun instanceof_Error :: "jsval \<Rightarrow> bool" where
  "instanceof_Error (JErr m) = True"
| "instanceof_Error v = False"

text \<open>
  part_001:156-162, for the value \<^verbatim>\<open>looselyTyped\<close> holds; the result is what
  \<^verbatim>\<open>console.log\<close> received, or the fault that ended the run:
  \<^verbatim>\<open>console.log(looselyTyped.toUpperCase());
  let myNum: number; myNum = looselyTyped;
  looselyTyped.someNonExistentMethod();
  console.log(looselyTyped.someNonExistentProperty);\<close>
\<close>

definition any_uses :: "jsval \<Rightarrow> fault + jsval list" where
  "any_uses looselyTyped =
     (case call_method looselyTyped M_toUpperCase [] of
        Inl e \<Rightarrow> Inl e
      | Inr r \<Rightarrow>
          (let out = [r]; myNum = looselyTyped in
           case call_method looselyTyped M_someNonExistentMethod [] of
             Inl e \<Rightarrow> Inl e
           | Inr u \<Rightarrow>
               (case get_prop looselyTyped P_someNonExistentProperty of
                  Inl e \<Rightarrow> Inl e
                | Inr p \<Rightarrow> Inr (out @ [p]))))"

text \<open>part_001:150-154, the three assignments, then the uses.\<close>

definition any_script :: "fault + jsval list" where
  "any_script =
     (let looselyTyped = JUndefined;
          looselyTyped = JNum 5;
          looselyTyped = JStr ''hello'';
          looselyTyped = JObj [(''id'', JNum 1)]
      in any_uses looselyTyped)"

text \<open>
  part_001:195-203, for the value \<^verbatim>\<open>definitelyNotAny\<close> holds; the result is what
  \<^verbatim>\<open>console.log\<close> and \<^verbatim>\<open>console.error\<close> received:
  \<^verbatim>\<open>if (typeof definitelyNotAny === "string") {
    console.log(definitelyNotAny.toUpperCase()); let myStr: string = definitelyNotAny;
  } else if (typeof definitelyNotAny === "number") {
    console.log(definitelyNotAny.toFixed(2));
  } else if (definitelyNotAny instanceof Error) {
    console.error(definitelyNotAny.message);
  }\<close>
\<close>

definition unknown_uses :: "jsval \<Rightarrow> fault + jsval list \<times> jsval list" where
  "unknown_uses definitelyNotAny =
     (if typeof definitelyNotAny = ''string'' then
        (case call_method definitelyNotAny M_toUpperCase [] of
           Inl e \<Rightarrow> Inl e
         | Inr r \<Rightarrow> (let myStr = definitelyNotAny in Inr ([r], [])))
      else if typeof definitelyNotAny = ''number'' then
        (case call_method definitelyNotAny M_toFixed [2] of
           Inl e \<Rightarrow> Inl e
         | Inr r \<Rightarrow> Inr ([r], []))
      else if instanceof_Error definitelyNotAny then
        (case get_prop definitelyNotAny P_message of
           Inl e \<Rightarrow> Inl e
         | Inr m \<Rightarrow> Inr ([], [m]))
      else Inr ([], []))"

text \<open>part_001:183-187, the three assignments, then the guarded uses.\<close>

definition unknown_script :: "fault + jsval list \<times> jsval list" where
  "unknown_script =
     (let definitelyNotAny = JUndefined;
          definitelyNotAny = JNum 10;
          definitelyNotAny = JStr ''world'';
          definitelyNotAny = JObj [(''name'', JStr ''TS'')]
      in unknown_uses definitelyNotAny)"

section \<open>The growable list\<close>

lemma coord_script_value: "coord_script = [JNum 5, JNum 2, JNum 3]"
  by (simp add: coord_script_def array_set_def array_push_def)

lemma coord_log_value: "coord_log = [JNum 3, JNum 3]"
  by (simp add: coord_log_def coord_script_value array_length_def array_get_def)

text \<open>
  C5. Growable list: after any append the length is the length before plus exactly 1, and
  the element read at the index equal to the length before the append is the appended
  element.
\<close>

theorem push_length_and_read:
  "array_length (array_push xs v) = array_length xs + 1 \<and>
   array_get (array_push xs v) (array_length xs) = v"
  by (simp add: array_length_def array_push_def array_get_def)

text \<open>
  C9. Growable list: a read at any index greater than or equal to the current length does
  not fault; it yields the undefined marker. (An element read on an array has no failing
  case, so \<open>array_get\<close> returns a value and never a fault.)
\<close>

theorem read_out_of_range_undefined:
  "array_length xs \<le> i \<Longrightarrow> array_get xs i = JUndefined"
  by (simp add: array_length_def array_get_def)

text \<open>The read the comment of main.ts:11 describes: \<^verbatim>\<open>coord[3]\<close> after the three statements.\<close>

theorem read_out_of_range_undefined_witness:
  "array_length coord_script \<le> 3 \<and> array_get coord_script 3 = JUndefined"
proof -
  have h: "array_length coord_script \<le> 3"
    by (simp add: coord_script_value array_length_def)
  show ?thesis using h read_out_of_range_undefined [OF h] by simp
qed

section \<open>The fixed-arity pair\<close>





text \<open>
  A write at or beyond the length of an array extends the array to the written index plus
  1, whatever its length; the positions passed over read as undefined.
\<close>

lemma write_beyond_length_extends:
  "array_length p \<le> k \<Longrightarrow>
   array_length (array_set p k v) = k + 1 \<and> array_get (array_set p k v) k = v \<and>
   (\<forall>j. array_length p \<le> j \<and> j < k \<longrightarrow> array_get (array_set p k v) j = JUndefined)"
  by (auto simp: array_length_def array_set_def array_get_def nth_append)



section \<open>Closed-set validation\<close>

text \<open>
  C3. For every candidate string outside {"north", "south", "east", "west"} the validation
  rejects the candidate: the only change to the state is one diagnostic appended to the
  error sink, and the target variable, unbound at its declaration, stays unbound. For every
  candidate in the set the variable is bound to the candidate and no diagnostic is emitted.
\<close>

theorem closed_set_validation:
  "(input \<notin> set [''north'', ''south'', ''east'', ''west''] \<longrightarrow>
      validate_direction input s = s\<lparr>err := err s @ [JStr ''Invalid direction entered.'']\<rparr> \<and>
      direction (validate_direction input s) = direction s \<and>
      length (err (validate_direction input s)) = length (err s) + 1 \<and>
      direction (direction_script input) = JUndefined \<and>
      err (direction_script input) = [JStr ''Invalid direction entered.'']) \<and>
   (input \<in> set [''north'', ''south'', ''east'', ''west''] \<longrightarrow>
      direction (validate_direction input s) = JStr input \<and>
      err (validate_direction input s) = err s \<and>
      direction (direction_script input) = JStr input \<and>
      err (direction_script input) = [])"
  by (auto simp: validate_direction_def direction_script_def declared_def)

theorem closed_set_validation_witness:
  "''hello'' \<notin> set [''north'', ''south'', ''east'', ''west''] \<and>
   direction (direction_script ''hello'') = JUndefined \<and>
   err (direction_script ''hello'') = [JStr ''Invalid direction entered.''] \<and>
   ''north'' \<in> set [''north'', ''south'', ''east'', ''west''] \<and>
   direction (direction_script ''north'') = JStr ''north'' \<and>
   err (direction_script ''north'') = []"
proof -
  have out: "''hello'' \<notin> set [''north'', ''south'', ''east'', ''west'']" by simp
  have mem: "''north'' \<in> set [''north'', ''south'', ''east'', ''west'']" by simp
  from closed_set_validation [of "''hello''" declared] out
  have "direction (direction_script ''hello'') = JUndefined \<and>
        err (direction_script ''hello'') = [JStr ''Invalid direction entered.'']"
    by blast
  moreover from closed_set_validation [of "''north''" declared] mem
  have "direction (direction_script ''north'') = JStr ''north'' \<and>
        err (direction_script ''north'') = []"
    by blast
  ultimately show ?thesis using out mem by blast
qed

text \<open>Neither outcome writes to the output sink.\<close>

lemma validate_direction_out: "out (validate_direction input s) = out s"
  by (simp add: validate_direction_def)

section \<open>Named integer constants\<close>

lemma length_enum_values: "length (enum_values n decl) = length decl"
  by (induction n decl rule: enum_values.induct) auto

text \<open>In any declaration, a label without initialiser gets the value before it plus 1.\<close>

lemma enum_values_step:
  "Suc i < length decl \<Longrightarrow> snd (decl ! Suc i) = None \<Longrightarrow>
   snd (enum_values n decl ! Suc i) = snd (enum_values n decl ! i) + 1"
proof (induction n decl arbitrary: i rule: enum_values.induct)
  case (1 nxt)
  then show ?case by simp
next
  case (2 nxt name ms)
  then show ?case by (cases i; cases ms) auto
next
  case (3 nxt name n ms)
  then show ?case by (cases i; cases ms) auto
qed

text \<open>A declaration with no initialiser at all numbers its labels from the start value.\<close>

lemma enum_values_unseeded:
  "i < length ls \<Longrightarrow> enum_values n (map (\<lambda>l. (l, None)) ls) ! i = (ls ! i, n + int i)"
proof (induction ls arbitrary: n i)
  case Nil
  then show ?case by simp
next
  case (Cons l ls)
  show ?case
  proof (cases i)
    case 0
    then show ?thesis by simp
  next
    case (Suc j)
    with Cons.prems have "j < length ls" by simp
    from Cons.IH [OF this, of "n + 1"] Suc show ?thesis by simp
  qed
qed

lemma Numbers_enum_values:
  "enum_values 0 Numbers_decl = [(''Zero'', 0), (''One'', 1), (''Two'', 2), (''Three'', 3)]"
  by (simp add: Numbers_decl_def)

lemma Size_enum_values:
  "enum_values 0 Size_decl = [(''Small'', 100), (''Medium'', 101), (''Large'', 102)]"
  by (simp add: Size_decl_def)

lemma Numbers_value:
  "Numbers =
     [(''Zero'', JNum 0), (''0'', JStr ''Zero''), (''One'', JNum 1), (''1'', JStr ''One''),
      (''Two'', JNum 2), (''2'', JStr ''Two''), (''Three'', JNum 3), (''3'', JStr ''Three'')]"
  by code_simp

lemma Size_emitted_value:
  "Size_emitted =
     [(''Small'', JNum 100), (''100'', JStr ''Small''), (''Medium'', JNum 101),
      (''101'', JStr ''Medium''), (''Large'', JNum 102), (''102'', JStr ''Large'')]"
  by code_simp

text \<open>Lowering the declaration of part_001:111-115 gives the object part_000:92-97 builds.\<close>

lemma Size_lowering_matches_emitted: "Size = Size_emitted"
  by code_simp

text \<open>
  C4. The sequential set \<^verbatim>\<open>Numbers\<close> has no explicit seed: its first label \<^verbatim>\<open>Zero\<close> is
  bound to 0, each later label is bound to the value of the label before it plus 1, and
  reading back \<^verbatim>\<open>One\<close> yields 1 (which is what \<^verbatim>\<open>console.log(number)\<close> prints).
\<close>

theorem Numbers_sequential_values:
  "obj_get Numbers ''Zero'' = JNum 0 \<and>
   (\<forall>i. Suc i < length Numbers_decl \<longrightarrow>
      (\<exists>n. obj_get Numbers (fst (Numbers_decl ! i)) = JNum n \<and>
           obj_get Numbers (fst (Numbers_decl ! Suc i)) = JNum (n + 1))) \<and>
   obj_get Numbers ''One'' = JNum 1 \<and>
   number_log = [JNum 1]"
proof -
  have step: "\<exists>n. obj_get Numbers (fst (Numbers_decl ! i)) = JNum n \<and>
           obj_get Numbers (fst (Numbers_decl ! Suc i)) = JNum (n + 1)"
    if "Suc i < length Numbers_decl" for i
  proof -
    from that have "i = 0 \<or> i = 1 \<or> i = 2" by (auto simp: Numbers_decl_def)
    then show ?thesis
      by (auto simp: Numbers_decl_def Numbers_value obj_get_def)
  qed
  have "obj_get Numbers ''Zero'' = JNum 0" "obj_get Numbers ''One'' = JNum 1"
    by (simp_all add: Numbers_value obj_get_def)
  with step show ?thesis by (simp add: number_log_def)
qed

theorem Numbers_sequential_values_witness:
  "Suc 0 < length Numbers_decl \<and>
   fst (Numbers_decl ! 0) = ''Zero'' \<and> fst (Numbers_decl ! Suc 0) = ''One'' \<and>
   (\<exists>n. obj_get Numbers ''Zero'' = JNum n \<and> obj_get Numbers ''One'' = JNum (n + 1))"
proof -
  have h: "Suc 0 < length Numbers_decl" by (simp add: Numbers_decl_def)
  have l: "fst (Numbers_decl ! 0) = ''Zero''" "fst (Numbers_decl ! Suc 0) = ''One''"
    by (simp_all add: Numbers_decl_def)
  from Numbers_sequential_values h
  have "\<exists>n. obj_get Numbers (fst (Numbers_decl ! 0)) = JNum n \<and>
           obj_get Numbers (fst (Numbers_decl ! Suc 0)) = JNum (n + 1)"
    by blast
  with h l show ?thesis by simp
qed

text \<open>
  C2. The set \<^verbatim>\<open>Size\<close> is seeded at its first label, \<^verbatim>\<open>Small = 100\<close>: each later label
  is bound to the value of the label before it plus 1, so the values are 100, 101, 102,
  and reading back \<^verbatim>\<open>Medium\<close> yields 101, from the declaration of part_001:111-115 as
  from the object part_000:92-97 builds.
\<close>

theorem Size_seeded_values:
  "obj_get Size ''Small'' = JNum 100 \<and>
   (\<forall>i. Suc i < length Size_decl \<longrightarrow>
      (\<exists>n. obj_get Size (fst (Size_decl ! i)) = JNum n \<and>
           obj_get Size (fst (Size_decl ! Suc i)) = JNum (n + 1))) \<and>
   obj_get Size ''Medium'' = JNum 101 \<and>
   obj_get Size ''Large'' = JNum 102 \<and>
   obj_get Size_emitted ''Small'' = JNum 100 \<and>
   obj_get Size_emitted ''Medium'' = JNum 101 \<and>
   obj_get Size_emitted ''Large'' = JNum 102 \<and>
   size_log = [JNum 101] \<and>
   size_emitted_log = [JNum 101]"
proof -
  have reads: "obj_get Size_emitted ''Small'' = JNum 100"
    "obj_get Size_emitted ''Medium'' = JNum 101"
    "obj_get Size_emitted ''Large'' = JNum 102"
    by (simp_all add: Size_emitted_value obj_get_def)
  have step: "\<exists>n. obj_get Size (fst (Size_decl ! i)) = JNum n \<and>
           obj_get Size (fst (Size_decl ! Suc i)) = JNum (n + 1)"
    if "Suc i < length Size_decl" for i
  proof -
    from that have "i = 0 \<or> i = 1" by (auto simp: Size_decl_def)
    then show ?thesis
      by (auto simp: Size_decl_def Size_lowering_matches_emitted reads)
  qed
  from step reads show ?thesis
    by (simp add: Size_lowering_matches_emitted size_log_def size_emitted_log_def)
qed

theorem Size_seeded_values_witness:
  "Suc 0 < length Size_decl \<and>
   fst (Size_decl ! 0) = ''Small'' \<and> fst (Size_decl ! Suc 0) = ''Medium'' \<and>
   (\<exists>n. obj_get Size ''Small'' = JNum n \<and> obj_get Size ''Medium'' = JNum (n + 1))"
proof -
  have h: "Suc 0 < length Size_decl" by (simp add: Size_decl_def)
  have l: "fst (Size_decl ! 0) = ''Small''" "fst (Size_decl ! Suc 0) = ''Medium''"
    by (simp_all add: Size_decl_def)
  from Size_seeded_values h
  have "\<exists>n. obj_get Size (fst (Size_decl ! 0)) = JNum n \<and>
           obj_get Size (fst (Size_decl ! Suc 0)) = JNum (n + 1)"
    by blast
  with h l show ?thesis by simp
qed

text \<open>
  C10. \<^verbatim>\<open>Size\<close> keeps a reverse mapping: for each label L of Small, Medium, Large, reading
  the value bound to L and then reading \<^verbatim>\<open>Size\<close> at that value gives back the name L.
\<close>

theorem Size_reverse_mapping:
  "\<forall>L \<in> set [''Small'', ''Medium'', ''Large''].
     obj_index Size_emitted (obj_get Size_emitted L) = JStr L \<and>
     obj_index Size (obj_get Size L) = JStr L"
  by (simp add: Size_lowering_matches_emitted Size_emitted_value obj_get_def obj_index_def,
      code_simp)

theorem Size_reverse_mapping_witness:
  "''Medium'' \<in> set [''Small'', ''Medium'', ''Large''] \<and>
   obj_get Size_emitted ''Medium'' = JNum 101 \<and>
   obj_index Size_emitted (JNum 101) = JStr ''Medium''"
proof -
  have h: "''Medium'' \<in> set [''Small'', ''Medium'', ''Large'']" by simp
  have r: "obj_get Size_emitted ''Medium'' = JNum 101"
    by (simp add: Size_emitted_value obj_get_def)
  from Size_reverse_mapping h
  have "obj_index Size_emitted (obj_get Size_emitted ''Medium'') = JStr ''Medium''"
    by blast
  with h r show ?thesis by simp
qed

text \<open>
  After the second declaration has merged its string members in, the numeric labels read
  as before and keep their way back; a string member has none.
\<close>

lemma Size_merged_value:
  "Size_merged = Size_emitted @
     [(''Up'', JStr ''UP''), (''Down'', JStr ''DOWN''), (''Left'', JStr ''LEFT''),
      (''Right'', JStr ''RIGHT'')]"
  by code_simp

lemma Size_merged_reads:
  "obj_get Size_merged ''Medium'' = JNum 101 \<and>
   obj_index Size_merged (obj_get Size_merged ''Medium'') = JStr ''Medium'' \<and>
   obj_get Size_merged ''Up'' = JStr ''UP'' \<and>
   obj_index Size_merged (obj_get Size_merged ''Up'') = JUndefined"
  by (simp add: Size_merged_value Size_emitted_value obj_get_def obj_index_def, code_simp)

section \<open>Member access at execution\<close>

text \<open>
  On a value that has been assigned (it is not undefined), calling a method the value does
  not have ends the run with a TypeError, and reading a property it does not have yields
  undefined.
\<close>

lemma missing_property_reads_undefined:
  "v \<noteq> JUndefined \<Longrightarrow> \<not> has_property v k \<Longrightarrow> get_prop v k = Inr JUndefined"
proof (cases v)
  case (JObj ps)
  assume "\<not> has_property v k"
  with JObj have "property_key k \<notin> set (map fst ps)" by simp
  then have "map_of ps (property_key k) = None" by (simp add: map_of_eq_None_iff)
  with JObj show ?thesis by (simp add: obj_get_def)
qed auto

lemma missing_method_call_faults:
  "v \<noteq> JUndefined \<Longrightarrow> \<not> has_method v m \<Longrightarrow>
   call_method v m args = Inl (TypeError_not_a_function m)"
  by (cases v) auto

text \<open>
  The run of part_001:150-162 as written: \<^verbatim>\<open>looselyTyped\<close> holds \<^verbatim>\<open>{ id: 1 }\<close> when line
  156 calls \<^verbatim>\<open>toUpperCase\<close> on it, and the run ends there.
\<close>

lemma any_script_faults: "any_script = Inl (TypeError_not_a_function M_toUpperCase)"
  by (simp add: any_script_def any_uses_def)

text \<open>On a string the same statements get past line 156 and end at line 161.\<close>

lemma any_uses_string:
  "any_uses (JStr s) = Inl (TypeError_not_a_function M_someNonExistentMethod)"
  by (simp add: any_uses_def)

lemma typeof_string_iff: "typeof v = ''string'' \<longleftrightarrow> (\<exists>s. v = JStr s)"
  by (cases v) auto

text \<open>
  Inside the branch guarded by \<^verbatim>\<open>typeof definitelyNotAny === "string"\<close> the call of
  \<^verbatim>\<open>toUpperCase\<close> succeeds, and the guarded statements of part_001:195-203 never fault,
  whatever the variable holds.
\<close>

lemma guarded_toUpperCase_succeeds:
  "typeof v = ''string'' \<Longrightarrow>
   \<exists>s. v = JStr s \<and> call_method v M_toUpperCase [] = Inr (JStr (toUpperCase s)) \<and>
       unknown_uses v = Inr ([JStr (toUpperCase s)], [])"
  by (cases v) (auto simp: unknown_uses_def)

lemma unknown_uses_never_faults: "\<exists>r. unknown_uses v = Inr r"
  by (cases v) (auto simp: unknown_uses_def)

lemma unknown_uses_world: "unknown_uses (JStr ''world'') = Inr ([JStr ''WORLD''], [])"
  by code_simp

text \<open>
  The call without the guard (the statement part_001:190 keeps as a comment) would end the
  run on the value the variable holds at that point; the run as written prints nothing.
\<close>

lemma unguarded_toUpperCase_faults:
  "call_method (JObj [(''name'', JStr ''TS'')]) M_toUpperCase [] =
     Inl (TypeError_not_a_function M_toUpperCase)"
  by simp

lemma unknown_script_value: "unknown_script = Inr ([], [])"
  by (simp add: unknown_script_def unknown_uses_def)

end
